theory Spec2Isabelle
  imports Main "HOL-Library.Sublist"
begin

section \<open>Python values and the built-in operations the module relies on\<close>

text \<open>
  The module \<^verbatim>\<open>libcloud/common/linode.py\<close> is duck-typed: whatever
  \<^verbatim>\<open>json.loads\<close> returns is iterated, tested with \<^verbatim>\<open>in\<close> and subscripted.
  The values a JSON decoder can return are \<^verbatim>\<open>None\<close>, booleans, integers, floats,
  strings, lists and dictionaries with string keys.

  A float is kept as a dyadic rational \<open>m * 2 ^ e\<close> or one of the special values the
  decoder accepts (\<^verbatim>\<open>Infinity\<close>, \<^verbatim>\<open>-Infinity\<close>, \<^verbatim>\<open>NaN\<close>).

  A dictionary is the list of its items; a key is looked up with \<open>map_of\<close>.
\<close>

datatype pyfloat = Dyadic int int | Inf bool | NaN

datatype pyval =
    PyNone
  | PyBool bool
  | PyInt int
  | PyFloat pyfloat
  | PyStr string
  | PyList "pyval list"
  | PyDict "(string \<times> pyval) list"

text \<open>
  An instance of the class \<^verbatim>\<open>LinodeException\<close>: its constructor stores the two
  arguments as they are given, and the pair of them as \<^verbatim>\<open>args\<close>.
\<close>

record LinodeException =
  code :: pyval
  message :: pyval
  args :: "pyval \<times> pyval"

definition LinodeException_init :: "pyval \<Rightarrow> pyval \<Rightarrow> LinodeException" where
  "LinodeException_init c m = \<lparr>code = c, message = m, args = (c, m)\<rparr>"

text \<open>
  The exceptions that can travel through the module: an instance of the module's own
  class; \<open>InvalidCredsError\<close> and \<open>MalformedResponseError\<close>, the classes imported from
  \<^verbatim>\<open>libcloud.common.types\<close> (the first built from one value, the second from a
  value and the keyword \<^verbatim>\<open>body\<close>); and Python's own.
\<close>

datatype pyexc =
    LinodeError LinodeException
  | InvalidCredsError pyval
  | MalformedResponseError string string
  | TypeError
  | KeyError
  | IndexError
  | ValueError
  | OverflowError

text \<open>\<^verbatim>\<open>isinstance(js, dict)\<close>\<close>

fun isinstance_dict :: "pyval \<Rightarrow> bool" where
  "isinstance_dict (PyDict kvs) = True"
| "isinstance_dict v = False"

text \<open>
  \<^verbatim>\<open>for x in v\<close>: a list yields its elements, a string its characters (each a string
  of length one), a dictionary its keys; nothing else is iterable.
\<close>

fun py_iter :: "pyval \<Rightarrow> pyexc + pyval list" where
  "py_iter (PyList xs) = Inr xs"
| "py_iter (PyStr s) = Inr (map (\<lambda>c. PyStr [c]) s)"
| "py_iter (PyDict kvs) = Inr (map (\<lambda>kv. PyStr (fst kv)) kvs)"
| "py_iter v = Inl TypeError"

text \<open>
  \<^verbatim>\<open>k in v\<close> for a string \<open>k\<close>: key membership in a dictionary, element membership
  (by equality) in a list, substring test in a string, \<^verbatim>\<open>TypeError\<close> otherwise.
\<close>

fun py_in :: "string \<Rightarrow> pyval \<Rightarrow> pyexc + bool" where
  "py_in k (PyDict kvs) = Inr (map_of kvs k \<noteq> None)"
| "py_in k (PyList xs) = Inr (PyStr k \<in> set xs)"
| "py_in k (PyStr s) = Inr (sublist k s)"
| "py_in k v = Inl TypeError"

text \<open>
  \<^verbatim>\<open>v[k]\<close> for a string \<open>k\<close>: the value under the key in a dictionary
  (\<^verbatim>\<open>KeyError\<close> when absent); lists and strings take integer indices only, and the
  remaining values are not subscriptable.
\<close>

fun py_getitem :: "pyval \<Rightarrow> string \<Rightarrow> pyexc + pyval" where
  "py_getitem (PyDict kvs) k = (case map_of kvs k of None \<Rightarrow> Inl KeyError | Some v \<Rightarrow> Inr v)"
| "py_getitem v k = Inl TypeError"

text \<open>
  \<^verbatim>\<open>v == n\<close> for an integer \<open>n\<close>: numbers compare by value (a boolean is the integer
  0 or 1, a float is compared exactly); any other value is unequal.
\<close>

fun float_eq_int :: "pyfloat \<Rightarrow> int \<Rightarrow> bool" where
  "float_eq_int (Dyadic m e) n =
     (if 0 \<le> e then m * 2 ^ nat e = n else m = n * 2 ^ nat (- e))"
| "float_eq_int f n = False"

fun py_eq_int :: "pyval \<Rightarrow> int \<Rightarrow> bool" where
  "py_eq_int (PyInt i) n = (i = n)"
| "py_eq_int (PyBool b) n = ((if b then 1 else 0) = n)"
| "py_eq_int (PyFloat f) n = float_eq_int f n"
| "py_eq_int v n = False"

text \<open>
  \<^verbatim>\<open>raise x\<close>: an exception instance is raised as it is; raising \<^verbatim>\<open>None\<close> is a
  \<^verbatim>\<open>TypeError\<close> (exceptions must derive from \<^verbatim>\<open>BaseException\<close>).
\<close>

fun py_raise :: "pyexc option \<Rightarrow> pyexc" where
  "py_raise (Some e) = e"
| "py_raise None = TypeError"

section \<open>LinodeException\<close>

text \<open>Decimal rendering of an integer, as \<^verbatim>\<open>%u\<close> and \<^verbatim>\<open>%d\<close> print it.\<close>

fun digit_char :: "nat \<Rightarrow> char" where
  "digit_char d = char_of (48 + d)"

fun show_nat :: "nat \<Rightarrow> string" where
  "show_nat n = (if n < 10 then [digit_char n] else show_nat (n div 10) @ [digit_char (n mod 10)])"

definition show_int :: "int \<Rightarrow> string" where
  "show_int i = (if i < 0 then CHR ''-'' # show_nat (nat (- i)) else show_nat (nat i))"

text \<open>
  Reading a decimal numeral back, to state that \<open>show_nat\<close> writes the number in
  base ten.
\<close>

definition read_nat :: "string \<Rightarrow> nat" where
  "read_nat s = foldl (\<lambda>a c. 10 * a + (of_char c - 48)) 0 s"

text \<open>Truncation of a float towards zero, as \<^verbatim>\<open>int(f)\<close> does.\<close>

fun float_trunc :: "pyfloat \<Rightarrow> pyexc + int" where
  "float_trunc (Dyadic m e) =
     Inr (if 0 \<le> e then m * 2 ^ nat e
          else if 0 \<le> m then m div 2 ^ nat (- e)
          else - ((- m) div 2 ^ nat (- e)))"
| "float_trunc (Inf s) = Inl OverflowError"
| "float_trunc NaN = Inl ValueError"

text \<open>
  The conversion \<^verbatim>\<open>%u\<close> (the same as \<^verbatim>\<open>%d\<close>): a number is printed as a signed
  decimal integer, a float after truncation; any other value is a \<^verbatim>\<open>TypeError\<close>.
\<close>

fun format_u :: "pyval \<Rightarrow> pyexc + string" where
  "format_u (PyInt i) = Inr (show_int i)"
| "format_u (PyBool b) = Inr (show_int (if b then 1 else 0))"
| "format_u (PyFloat f) = (case float_trunc f of Inl e \<Rightarrow> Inl e | Inr i \<Rightarrow> Inr (show_int i))"
| "format_u v = Inl TypeError"

text \<open>
  The conversion \<^verbatim>\<open>%s\<close>: a string is inserted as it is, any other value as the
  text the built-in \<^verbatim>\<open>str\<close> returns for it. That text is the parameter
  \<open>str_v\<close>.
\<close>

fun format_s :: "string \<Rightarrow> pyval \<Rightarrow> string" where
  "format_s str_v (PyStr s) = s"
| "format_s str_v v = str_v"

text \<open>
  \<^verbatim>\<open>__str__\<close>: \<^verbatim>\<open>"(%u) %s" % (self.code, self.message)\<close>, with \<open>str_message\<close>
  the text of \<^verbatim>\<open>str(self.message)\<close>.
\<close>

definition LinodeException_str :: "string \<Rightarrow> LinodeException \<Rightarrow> pyexc + string" where
  "LinodeException_str str_message self =
     (case format_u (code self) of
        Inl e \<Rightarrow> Inl e
      | Inr c \<Rightarrow> Inr (''('' @ c @ '') '' @ format_s str_message (message self)))"

text \<open>
  \<^verbatim>\<open>__repr__\<close>: \<^verbatim>\<open>"<LinodeException code %u '%s'>" % (self.code, self.message)\<close>.
  The character \<open>CHR 0x27\<close> is the single quote.
\<close>

definition LinodeException_repr :: "string \<Rightarrow> LinodeException \<Rightarrow> pyexc + string" where
  "LinodeException_repr str_message self =
     (case format_u (code self) of
        Inl e \<Rightarrow> Inl e
      | Inr c \<Rightarrow> Inr (''<LinodeException code '' @ c @ '' '' @ [CHR 0x27]
                      @ format_s str_message (message self) @ [CHR 0x27] @ ''>''))"

section \<open>LinodeResponse\<close>

text \<open>
  The raw HTTP response the constructor reads: \<^verbatim>\<open>read()\<close>, \<^verbatim>\<open>status\<close>,
  \<^verbatim>\<open>getheaders()\<close> and \<^verbatim>\<open>reason\<close>.
\<close>

record http_response =
  read :: string
  resp_status :: int
  getheaders :: "(string \<times> string) list"
  reason :: string

text \<open>
  The attributes of a \<^verbatim>\<open>LinodeResponse\<close>. \<open>objects\<close> is \<open>None\<close> where the
  source stores \<^verbatim>\<open>None\<close>; an entry of \<open>errors\<close> is \<open>None\<close> where the source
  stores \<^verbatim>\<open>None\<close> in the list.
\<close>

record LinodeResponse =
  body :: string
  status :: int
  headers :: "string \<rightharpoonup> string"
  error :: string
  invalid :: LinodeException
  objects :: "pyval list option"
  errors :: "pyexc option list"

text \<open>
  \<^verbatim>\<open>_make_excp\<close>: converts one entry of \<^verbatim>\<open>ERRORARRAY\<close>. The two membership
  tests are joined by \<^verbatim>\<open>or\<close>, so the second runs only when the first key is there.
\<close>

definition make_excp :: "pyval \<Rightarrow> pyexc + pyexc option" where
  "make_excp err =
     (case py_in ''ERRORCODE'' err of Inl e \<Rightarrow> Inl e
      | Inr has_code \<Rightarrow>
        if \<not> has_code then Inr None
        else (case py_in ''ERRORMESSAGE'' err of Inl e \<Rightarrow> Inl e
         | Inr has_message \<Rightarrow>
           if \<not> has_message then Inr None
           else (case py_getitem err ''ERRORCODE'' of Inl e \<Rightarrow> Inl e
            | Inr c \<Rightarrow>
              if py_eq_int c 4
              then (case py_getitem err ''ERRORMESSAGE'' of Inl e \<Rightarrow> Inl e
                    | Inr m \<Rightarrow> Inr (Some (InvalidCredsError m)))
              else (case py_getitem err ''ERRORCODE'' of Inl e \<Rightarrow> Inl e
                    | Inr c' \<Rightarrow>
                      (case py_getitem err ''ERRORMESSAGE'' of Inl e \<Rightarrow> Inl e
                       | Inr m \<Rightarrow> Inr (Some (LinodeError (LinodeException_init c' m))))))))"

text \<open>
  The generator \<^verbatim>\<open>self._make_excp(e) for e in obj["ERRORARRAY"]\<close> consumed by
  \<^verbatim>\<open>errs.extend\<close>: the entries are converted in order, and the first exception
  ends it.
\<close>

fun make_excps :: "pyval list \<Rightarrow> pyexc + pyexc option list" where
  "make_excps [] = Inr []"
| "make_excps (e # es) =
     (case make_excp e of Inl x \<Rightarrow> Inl x
      | Inr r \<Rightarrow> (case make_excps es of Inl x \<Rightarrow> Inl x | Inr rs \<Rightarrow> Inr (r # rs)))"

text \<open>
  \<^verbatim>\<open>"DATA" not in obj or "ERRORARRAY" not in obj or "ACTION" not in obj\<close>,
  evaluated from left to right.
\<close>

definition missing_key :: "pyval \<Rightarrow> pyexc + bool" where
  "missing_key obj =
     (case py_in ''DATA'' obj of Inl e \<Rightarrow> Inl e
      | Inr d \<Rightarrow>
        if \<not> d then Inr True
        else (case py_in ''ERRORARRAY'' obj of Inl e \<Rightarrow> Inl e
         | Inr ea \<Rightarrow>
           if \<not> ea then Inr True
           else (case py_in ''ACTION'' obj of Inl e \<Rightarrow> Inl e
            | Inr a \<Rightarrow> Inr (\<not> a))))"

text \<open>
  The loop \<^verbatim>\<open>for obj in js\<close> of \<^verbatim>\<open>parse_body\<close>, over the items still to come,
  with the lists \<^verbatim>\<open>ret\<close> and \<^verbatim>\<open>errs\<close> built so far.
\<close>

fun extract_loop ::
  "LinodeException \<Rightarrow> pyval list \<Rightarrow> pyval list \<Rightarrow> pyexc option list
   \<Rightarrow> pyexc + (pyval list \<times> pyexc option list)" where
  "extract_loop inval [] ret errs = Inr (ret, errs)"
| "extract_loop inval (obj # js) ret errs =
     (case missing_key obj of Inl e \<Rightarrow> Inl e
      | Inr missing \<Rightarrow>
        if missing then extract_loop inval js (ret @ [PyNone]) (errs @ [Some (LinodeError inval)])
        else (case py_getitem obj ''DATA'' of Inl e \<Rightarrow> Inl e
         | Inr d \<Rightarrow>
           (case py_getitem obj ''ERRORARRAY'' of Inl e \<Rightarrow> Inl e
            | Inr ea \<Rightarrow>
              (case py_iter ea of Inl e \<Rightarrow> Inl e
               | Inr es \<Rightarrow>
                 (case make_excps es of Inl e \<Rightarrow> Inl e
                  | Inr new \<Rightarrow> extract_loop inval js (ret @ [d]) (errs @ new))))))"

text \<open>
  The second \<^verbatim>\<open>try\<close> block of \<^verbatim>\<open>parse_body\<close>: a dictionary is promoted to a
  one-element list, then the loop runs over the items.
\<close>

definition extract_step :: "LinodeException \<Rightarrow> pyval \<Rightarrow> pyexc + (pyval list \<times> pyexc option list)" where
  "extract_step inval js =
     (let js' = (if isinstance_dict js then PyList [js] else js)
      in case py_iter js' of Inl e \<Rightarrow> Inl e
         | Inr items \<Rightarrow> extract_loop inval items [] [])"

text \<open>
  \<^verbatim>\<open>parse_body\<close>, reading \<^verbatim>\<open>self.body\<close> and \<^verbatim>\<open>self.invalid\<close>. The
  decoder \<^verbatim>\<open>json.loads\<close> is the parameter \<open>loads\<close>; any exception it raises
  becomes a \<^verbatim>\<open>MalformedResponseError\<close>, which leaves the function, and any
  exception of the second block is replaced by the fallback result.
\<close>

definition parse_body ::
  "(string \<Rightarrow> pyexc + pyval) \<Rightarrow> string \<Rightarrow> LinodeException
   \<Rightarrow> pyexc + (pyval list option \<times> pyexc option list)" where
  "parse_body loads bdy inval =
     (case loads bdy of
        Inl e \<Rightarrow> Inl (MalformedResponseError ''Failed to parse JSON'' bdy)
      | Inr js \<Rightarrow>
        (case extract_step inval js of
           Inl e \<Rightarrow> Inr (None, [Some (LinodeError inval)])
         | Inr (ret, errs) \<Rightarrow> Inr (Some ret, errs)))"

text \<open>
  A decoder given by a finite table: a body of the table decodes to the value beside it,
  and the decoder raises on every other body. It stands for \<open>loads\<close> where a
  concrete response is evaluated.
\<close>

definition loads_of :: "(string \<times> pyval) list \<Rightarrow> string \<Rightarrow> pyexc + pyval" where
  "loads_of table bdy = (case map_of table bdy of None \<Rightarrow> Inl ValueError | Some v \<Rightarrow> Inr v)"

text \<open>\<^verbatim>\<open>success\<close>: \<^verbatim>\<open>len(self.errors) == 0\<close>\<close>

definition success :: "LinodeResponse \<Rightarrow> bool" where
  "success self = (length (errors self) = 0)"

text \<open>
  The value the constructor stores in \<^verbatim>\<open>self.invalid\<close>:
  \<^verbatim>\<open>LinodeException(0xFF, "Invalid JSON received from server")\<close>.
\<close>

abbreviation invalid_json_error :: LinodeException where
  "invalid_json_error \<equiv>
     LinodeException_init (PyInt 0xFF) (PyStr ''Invalid JSON received from server'')"

text \<open>
  The constructor: the attributes are read from the raw response, the body is parsed,
  and an unsuccessful response raises \<^verbatim>\<open>self.errors[0]\<close>. The result is the
  exception that leaves the constructor, or the finished object.
\<close>

definition LinodeResponse_init ::
  "(string \<Rightarrow> pyexc + pyval) \<Rightarrow> http_response \<Rightarrow> pyexc + LinodeResponse" where
  "LinodeResponse_init loads response =
     (let inval = invalid_json_error
      in case parse_body loads (read response) inval of
           Inl e \<Rightarrow> Inl e
         | Inr (objs, errs) \<Rightarrow>
           (let self = \<lparr>body = read response, status = resp_status response,
                         headers = map_of (rev (getheaders response)),
                         error = reason response, invalid = inval,
                         objects = objs, errors = errs\<rparr>
            in if \<not> success self
               then (case errors self of [] \<Rightarrow> Inl IndexError | e # es \<Rightarrow> Inl (py_raise e))
               else Inr self))"

section \<open>LinodeConnection\<close>

text \<open>
  The connection holds the key it was built with. \<^verbatim>\<open>add_default_params\<close> stores
  two entries in the dictionary it is given and returns that dictionary.
\<close>

record LinodeConnection =
  key :: pyval

definition add_default_params :: "LinodeConnection \<Rightarrow> (string \<rightharpoonup> pyval) \<Rightarrow> (string \<rightharpoonup> pyval)" where
  "add_default_params self params =
     (params(''api_key'' \<mapsto> key self))(''api_responseFormat'' \<mapsto> PyStr ''json'')"

section \<open>Facts about the helpers\<close>

lemma digit_char_value: "d < 10 \<Longrightarrow> of_char (digit_char d) - 48 = d"
  by simp

lemma read_nat_snoc: "read_nat (s @ [c]) = 10 * read_nat s + (of_char c - 48)"
  by (simp add: read_nat_def)

lemma read_show_nat: "read_nat (show_nat n) = n"
proof (induction n rule: show_nat.induct)
  case (1 n)
  show ?case
  proof (cases "n < 10")
    case True
    then show ?thesis
      by (subst show_nat.simps) (simp add: read_nat_def)
  next
    case False
    then have "read_nat (show_nat (n div 10)) = n div 10"
      using "1.IH" by simp
    moreover have "of_char (digit_char (n mod 10)) - 48 = n mod 10"
      by (rule digit_char_value) simp
    ultimately show ?thesis
      using False by (subst show_nat.simps) (simp add: read_nat_snoc del: digit_char.simps)
  qed
qed

lemma py_eq_int_PyInt_4: "py_eq_int (PyInt n) 4 = (n = 4)"
  by simp

lemma missing_key_dict:
  "missing_key (PyDict kvs) =
     Inr (map_of kvs ''DATA'' = None \<or> map_of kvs ''ERRORARRAY'' = None
          \<or> map_of kvs ''ACTION'' = None)"
  by (auto simp: missing_key_def)

lemma make_excp_dict_missing:
  "map_of kvs ''ERRORCODE'' = None \<or> map_of kvs ''ERRORMESSAGE'' = None
   \<Longrightarrow> make_excp (PyDict kvs) = Inr None"
  by (auto simp: make_excp_def)

text \<open>
  The lists built so far are only ever extended: running the loop from given lists is
  running it from empty ones and appending.
\<close>

lemma extract_loop_acc:
  "extract_loop inval xs ret errs =
     (case extract_loop inval xs [] [] of
        Inl e \<Rightarrow> Inl e
      | Inr (r, es) \<Rightarrow> Inr (ret @ r, errs @ es))"
proof (induction xs arbitrary: ret errs)
  case Nil
  show ?case by simp
next
  case (Cons obj js)
  have shift: "extract_loop inval js (ret @ r) (errs @ e) =
      (case extract_loop inval js r e of
         Inl x \<Rightarrow> Inl x
       | Inr (r', es) \<Rightarrow> Inr (ret @ r', errs @ es))" for r e
  proof -
    have "extract_loop inval js (ret @ r) (errs @ e) =
        (case extract_loop inval js [] [] of
           Inl x \<Rightarrow> Inl x
         | Inr (a, b) \<Rightarrow> Inr ((ret @ r) @ a, (errs @ e) @ b))"
      by (rule Cons.IH)
    moreover have "extract_loop inval js r e =
        (case extract_loop inval js [] [] of
           Inl x \<Rightarrow> Inl x
         | Inr (a, b) \<Rightarrow> Inr (r @ a, e @ b))"
      by (rule Cons.IH)
    ultimately show ?thesis
      by (simp split: sum.splits prod.splits)
  qed
  show ?case
    by (simp add: shift split: sum.splits prod.splits)
qed

lemma extract_loop_append:
  "extract_loop inval (xs @ ys) ret errs =
     (case extract_loop inval xs ret errs of
        Inl e \<Rightarrow> Inl e
      | Inr (r, es) \<Rightarrow> extract_loop inval ys r es)"
  by (induction xs arbitrary: ret errs) (simp_all split: sum.splits prod.splits)

text \<open>What the constructor does with the result of \<open>parse_body\<close>.\<close>

lemma init_outcome:
  "parse_body loads (read response) invalid_json_error = Inr (objs, errs) \<Longrightarrow>
   LinodeResponse_init loads response =
     (case errs of
        [] \<Rightarrow> Inr \<lparr>body = read response, status = resp_status response,
                    headers = map_of (rev (getheaders response)), error = reason response,
                    invalid = invalid_json_error, objects = objs, errors = []\<rparr>
      | e # es \<Rightarrow> Inl (py_raise e))"
  by (simp add: LinodeResponse_init_def success_def split: list.splits)

lemma success_iff_no_errors: "success self = (errors self = [])"
  by (simp add: success_def)

lemma init_raises_first_exception:
  "parse_body loads (read response) invalid_json_error = Inr (objs, Some e # es) \<Longrightarrow>
   LinodeResponse_init loads response = Inl e"
  by (simp add: init_outcome)

lemma init_type_error_on_none_entry:
  "parse_body loads (read response) invalid_json_error = Inr (objs, None # es) \<Longrightarrow>
   LinodeResponse_init loads response = Inl TypeError"
  by (simp add: init_outcome)

text \<open>
  Entries without one of their two keys are each converted to \<^verbatim>\<open>None\<close>, and that
  many \<^verbatim>\<open>None\<close>s are what the generator hands to \<^verbatim>\<open>errs.extend\<close>.
\<close>

lemma make_excps_all_missing:
  "\<forall>e \<in> set es. \<exists>kvs. e = PyDict kvs
       \<and> (map_of kvs ''ERRORCODE'' = None \<or> map_of kvs ''ERRORMESSAGE'' = None)
   \<Longrightarrow> make_excps es = Inr (replicate (length es) None)"
proof (induction es)
  case Nil
  show ?case by simp
next
  case (Cons e es)
  then obtain kvs where "e = PyDict kvs"
    and "map_of kvs ''ERRORCODE'' = None \<or> map_of kvs ''ERRORMESSAGE'' = None"
    by auto
  then have "make_excp e = Inr None"
    by (simp add: make_excp_dict_missing)
  moreover have "make_excps es = Inr (replicate (length es) None)"
    using Cons by simp
  ultimately show ?case by simp
qed

section \<open>The response parser\<close>

text \<open>
  C1. An \<^verbatim>\<open>ERRORARRAY\<close> entry without \<^verbatim>\<open>ERRORCODE\<close> or \<^verbatim>\<open>ERRORMESSAGE\<close>
  is said to leave nothing in \<open>errors\<close>, so that a response with only such entries is
  successful. The conversion does return \<^verbatim>\<open>None\<close> for the entry, but
  \<^verbatim>\<open>errs.extend\<close> stores that \<^verbatim>\<open>None\<close>: for the body below \<open>errors\<close> is
  \<open>[None]\<close>, the response is not successful, and the constructor ends in the
  \<^verbatim>\<open>TypeError\<close> of \<^verbatim>\<open>raise None\<close>.
\<close>

theorem malformed_error_entry_stays_in_errors:
  "(let bdy = ''{\"DATA\":null,\"ERRORARRAY\":[{\"ERRORCODE\":5}],\"ACTION\":\"x\"}'';
        js = PyDict [(''DATA'', PyNone),
                     (''ERRORARRAY'', PyList [PyDict [(''ERRORCODE'', PyInt 5)]]),
                     (''ACTION'', PyStr ''x'')];
        response = \<lparr>read = bdy, resp_status = 200, getheaders = [], reason = ''OK''\<rparr>
    in make_excp (PyDict [(''ERRORCODE'', PyInt 5)]) = Inr None
       \<and> parse_body (loads_of [(bdy, js)]) bdy invalid_json_error = Inr (Some [PyNone], [None])
       \<and> LinodeResponse_init (loads_of [(bdy, js)]) response = Inl TypeError)"
  by (simp add: make_excp_def missing_key_def extract_step_def parse_body_def loads_of_def
      LinodeResponse_init_def success_def)

text \<open>
  C2, as amended. For every body on which the decoder raises, \<open>parse_body\<close> raises
  a \<^verbatim>\<open>MalformedResponseError\<close> with the description \<^verbatim>\<open>Failed to parse JSON\<close>
  and the raw body, and the constructor lets it through: no response object is built,
  so the error is in no \<open>errors\<close> list.
\<close>

theorem undecodable_body_raises_malformed_response:
  assumes "loads (read response) = Inl e"
  shows "parse_body loads (read response) inval
           = Inl (MalformedResponseError ''Failed to parse JSON'' (read response))
       \<and> LinodeResponse_init loads response
           = Inl (MalformedResponseError ''Failed to parse JSON'' (read response))"
  using assms by (simp add: parse_body_def LinodeResponse_init_def)

text \<open>The body \<^verbatim>\<open>not json\<close>, which the decoder rejects.\<close>

theorem undecodable_body_raises_malformed_response_witness:
  "loads_of [] (read \<lparr>read = ''not json'', resp_status = 200, getheaders = [], reason = ''OK''\<rparr>)
     = Inl ValueError
   \<and> LinodeResponse_init (loads_of [])
        \<lparr>read = ''not json'', resp_status = 200, getheaders = [], reason = ''OK''\<rparr>
     = Inl (MalformedResponseError ''Failed to parse JSON'' ''not json'')"
  using undecodable_body_raises_malformed_response
    [of "loads_of []"
        "\<lparr>read = ''not json'', resp_status = 200, getheaders = [], reason = ''OK''\<rparr>"
        ValueError invalid_json_error]
  by (simp add: loads_of_def)

text \<open>
  C2, as stated, fails: the condition of the code is that the decoder raises, not that
  the body is outside the JSON grammar. \<^verbatim>\<open>json.loads\<close> accepts the texts
  \<^verbatim>\<open>NaN\<close>, \<^verbatim>\<open>Infinity\<close> and \<^verbatim>\<open>-Infinity\<close>, which are not JSON. The body
  \<^verbatim>\<open>NaN\<close> decodes to a float, the loop cannot iterate over it, and the constructor
  raises the sentinel \<^verbatim>\<open>LinodeException\<close>, not a \<^verbatim>\<open>MalformedResponseError\<close>; the
  body \<^verbatim>\<open>{"DATA": NaN, "ERRORARRAY": [], "ACTION": "x"}\<close> builds a successful
  response.
\<close>

theorem non_json_body_accepted_by_decoder:
  "LinodeResponse_init (loads_of [(''NaN'', PyFloat NaN)])
     \<lparr>read = ''NaN'', resp_status = 200, getheaders = [], reason = ''OK''\<rparr>
     = Inl (LinodeError invalid_json_error)
   \<and> LinodeResponse_init (loads_of [(''NaN'', PyFloat NaN)])
     \<lparr>read = ''NaN'', resp_status = 200, getheaders = [], reason = ''OK''\<rparr>
     \<noteq> Inl (MalformedResponseError ''Failed to parse JSON'' ''NaN'')
   \<and> LinodeResponse_init
       (loads_of [(''{\"DATA\": NaN, \"ERRORARRAY\": [], \"ACTION\": \"x\"}'',
          PyDict [(''DATA'', PyFloat NaN), (''ERRORARRAY'', PyList []),
                  (''ACTION'', PyStr ''x'')])])
       \<lparr>read = ''{\"DATA\": NaN, \"ERRORARRAY\": [], \"ACTION\": \"x\"}'',
          resp_status = 200, getheaders = [], reason = ''OK''\<rparr>
     = Inr \<lparr>body = ''{\"DATA\": NaN, \"ERRORARRAY\": [], \"ACTION\": \"x\"}'', status = 200,
            headers = Map.empty, error = ''OK'', invalid = invalid_json_error,
            objects = Some [PyFloat NaN], errors = []\<rparr>"
  by (simp add: LinodeResponse_init_def parse_body_def extract_step_def missing_key_def
      loads_of_def success_def)

text \<open>
  C3. \<open>success\<close> is computed from \<open>errors\<close> (see \<open>success_iff_no_errors\<close>), and a
  first entry that is an exception is the one raised (see
  \<open>init_raises_first_exception\<close>). The first entry can be the \<^verbatim>\<open>None\<close> of an
  \<^verbatim>\<open>ERRORARRAY\<close> entry without its keys, though: for the body below \<open>errors\<close> is
  \<^verbatim>\<open>None\<close> followed by an \<^verbatim>\<open>InvalidCredsError\<close>, and the constructor raises
  neither of them but the \<^verbatim>\<open>TypeError\<close> of \<^verbatim>\<open>raise None\<close>.
\<close>

theorem raise_of_first_entry_fails_on_none:
  "(let bdy = ''{\"DATA\":null,\"ERRORARRAY\":[{\"ERRORMESSAGE\":\"m\"},{\"ERRORCODE\":4,\"ERRORMESSAGE\":\"Auth failed\"}],\"ACTION\":\"x\"}'';
        js = PyDict [(''DATA'', PyNone),
                     (''ERRORARRAY'', PyList [PyDict [(''ERRORMESSAGE'', PyStr ''m'')],
                                              PyDict [(''ERRORCODE'', PyInt 4),
                                                      (''ERRORMESSAGE'', PyStr ''Auth failed'')]]),
                     (''ACTION'', PyStr ''x'')];
        response = \<lparr>read = bdy, resp_status = 200, getheaders = [], reason = ''OK''\<rparr>
    in parse_body (loads_of [(bdy, js)]) bdy invalid_json_error
         = Inr (Some [PyNone], [None, Some (InvalidCredsError (PyStr ''Auth failed''))])
       \<and> LinodeResponse_init (loads_of [(bdy, js)]) response = Inl TypeError)"
  by (simp add: make_excp_def missing_key_def extract_step_def parse_body_def loads_of_def
      LinodeResponse_init_def success_def)

section \<open>Envelope items and error entries\<close>

text \<open>
  C4. An envelope item (a dictionary) without one of the keys \<^verbatim>\<open>DATA\<close>,
  \<^verbatim>\<open>ERRORARRAY\<close>, \<^verbatim>\<open>ACTION\<close> adds \<^verbatim>\<open>None\<close> to the objects and the
  sentinel \<^verbatim>\<open>self.invalid\<close> to the errors, whatever else the item holds, and the
  loop goes on with the items after it: after any items that were processed without an
  exception, the item's two entries stand between theirs and those of the items that
  follow. The sentinel has code \<open>0xFF\<close> and the message
  \<^verbatim>\<open>Invalid JSON received from server\<close>.
\<close>

theorem malformed_item_yields_null_and_sentinel:
  assumes "map_of kvs ''DATA'' = None \<or> map_of kvs ''ERRORARRAY'' = None
           \<or> map_of kvs ''ACTION'' = None"
  shows "extract_loop inval (PyDict kvs # js) ret errs
           = extract_loop inval js (ret @ [PyNone]) (errs @ [Some (LinodeError inval)])
       \<and> (extract_loop inval before [] [] = Inr (r1, e1) \<longrightarrow>
          extract_loop inval (before @ PyDict kvs # js) [] [] =
            (case extract_loop inval js [] [] of
               Inl x \<Rightarrow> Inl x
             | Inr (r2, e2) \<Rightarrow>
                 Inr (r1 @ PyNone # r2, e1 @ Some (LinodeError inval) # e2)))
       \<and> (loads (read response) = Inr (PyList (PyDict kvs # js)) \<longrightarrow>
          parse_body loads (read response) invalid_json_error =
            (case extract_loop invalid_json_error js [] [] of
               Inl x \<Rightarrow> Inr (None, [Some (LinodeError invalid_json_error)])
             | Inr (r2, e2) \<Rightarrow>
                 Inr (Some (PyNone # r2), Some (LinodeError invalid_json_error) # e2)))
       \<and> code invalid_json_error = PyInt 255
       \<and> message invalid_json_error = PyStr ''Invalid JSON received from server''"
proof -
  have step: "extract_loop i (PyDict kvs # js) ret' errs'
           = extract_loop i js (ret' @ [PyNone]) (errs' @ [Some (LinodeError i)])"
    for i ret' errs'
    using assms by (simp add: missing_key_dict)
  have pos: "extract_loop i (PyDict kvs # js) ret' errs' =
       (case extract_loop i js [] [] of
          Inl x \<Rightarrow> Inl x
        | Inr (r2, e2) \<Rightarrow> Inr (ret' @ PyNone # r2, errs' @ Some (LinodeError i) # e2))"
    for i ret' errs'
    by (subst step, subst extract_loop_acc) (simp split: sum.splits prod.splits)
  have mid: "extract_loop inval before [] [] = Inr (r1, e1) \<longrightarrow>
          extract_loop inval (before @ PyDict kvs # js) [] [] =
            (case extract_loop inval js [] [] of
               Inl x \<Rightarrow> Inl x
             | Inr (r2, e2) \<Rightarrow>
                 Inr (r1 @ PyNone # r2, e1 @ Some (LinodeError inval) # e2))"
    by (simp add: extract_loop_append pos del: extract_loop.simps)
  have whole: "loads (read response) = Inr (PyList (PyDict kvs # js)) \<longrightarrow>
          parse_body loads (read response) invalid_json_error =
            (case extract_loop invalid_json_error js [] [] of
               Inl x \<Rightarrow> Inr (None, [Some (LinodeError invalid_json_error)])
             | Inr (r2, e2) \<Rightarrow>
                 Inr (Some (PyNone # r2), Some (LinodeError invalid_json_error) # e2))"
    using pos[of invalid_json_error "[]" "[]"]
    by (simp add: parse_body_def extract_step_def split: sum.splits prod.splits
        del: extract_loop.simps)
  have fields: "code invalid_json_error = PyInt 255
       \<and> message invalid_json_error = PyStr ''Invalid JSON received from server''"
    by (simp add: LinodeException_init_def)
  from step mid whole fields show ?thesis by blast
qed

text \<open>
  Three items: a well-formed one, one with \<^verbatim>\<open>DATA\<close> and a non-empty
  \<^verbatim>\<open>ERRORARRAY\<close> but no \<^verbatim>\<open>ACTION\<close>, and a well-formed one. The entry of the
  second item's \<^verbatim>\<open>ERRORARRAY\<close> leaves no trace.
\<close>

theorem malformed_item_yields_null_and_sentinel_witness:
  "map_of [(''DATA'', PyInt 2),
           (''ERRORARRAY'', PyList [PyDict [(''ERRORCODE'', PyInt 4),
                                            (''ERRORMESSAGE'', PyStr ''no'')]])] ''ACTION'' = None
   \<and> extract_loop invalid_json_error
        [PyDict [(''DATA'', PyInt 1), (''ERRORARRAY'', PyList []), (''ACTION'', PyStr ''a'')]]
        [] []
     = Inr ([PyInt 1], [])
   \<and> extract_loop invalid_json_error
        ([PyDict [(''DATA'', PyInt 1), (''ERRORARRAY'', PyList []), (''ACTION'', PyStr ''a'')]]
         @ PyDict [(''DATA'', PyInt 2),
                   (''ERRORARRAY'', PyList [PyDict [(''ERRORCODE'', PyInt 4),
                                                    (''ERRORMESSAGE'', PyStr ''no'')]])]
         # [PyDict [(''DATA'', PyInt 3), (''ERRORARRAY'', PyList []), (''ACTION'', PyStr ''c'')]])
        [] []
     = Inr ([PyInt 1, PyNone, PyInt 3], [Some (LinodeError invalid_json_error)])"
  using malformed_item_yields_null_and_sentinel
    [of "[(''DATA'', PyInt 2),
          (''ERRORARRAY'', PyList [PyDict [(''ERRORCODE'', PyInt 4),
                                           (''ERRORMESSAGE'', PyStr ''no'')]])]"
        invalid_json_error
        "[PyDict [(''DATA'', PyInt 3), (''ERRORARRAY'', PyList []), (''ACTION'', PyStr ''c'')]]"
        "[]" "[]"
        "[PyDict [(''DATA'', PyInt 1), (''ERRORARRAY'', PyList []), (''ACTION'', PyStr ''a'')]]"
        "[PyInt 1]" "[]"]
  by (simp add: missing_key_def)

text \<open>
  C5. An \<^verbatim>\<open>ERRORARRAY\<close> entry (a dictionary) with both keys becomes an
  \<^verbatim>\<open>InvalidCredsError\<close> carrying \<^verbatim>\<open>ERRORMESSAGE\<close> when \<^verbatim>\<open>ERRORCODE == 4\<close>,
  and a \<^verbatim>\<open>LinodeException\<close> carrying \<^verbatim>\<open>ERRORCODE\<close> and \<^verbatim>\<open>ERRORMESSAGE\<close>
  otherwise. For an integer code the test is \<open>n = 4\<close> (see \<open>py_eq_int_PyInt_4\<close>).
\<close>

theorem make_excp_kinds:
  assumes "map_of kvs ''ERRORCODE'' = Some c" and "map_of kvs ''ERRORMESSAGE'' = Some m"
  shows "make_excp (PyDict kvs) =
           Inr (Some (if py_eq_int c 4 then InvalidCredsError m
                      else LinodeError \<lparr>code = c, message = m, args = (c, m)\<rparr>))"
  using assms by (simp add: make_excp_def LinodeException_init_def)

text \<open>Code 4 gives the credentials error, code 5 the module's exception.\<close>

theorem make_excp_kinds_witness:
  "map_of [(''ERRORCODE'', PyInt 4), (''ERRORMESSAGE'', PyStr ''Auth failed'')] ''ERRORCODE''
     = Some (PyInt 4)
   \<and> map_of [(''ERRORCODE'', PyInt 4), (''ERRORMESSAGE'', PyStr ''Auth failed'')] ''ERRORMESSAGE''
     = Some (PyStr ''Auth failed'')
   \<and> make_excp (PyDict [(''ERRORCODE'', PyInt 4), (''ERRORMESSAGE'', PyStr ''Auth failed'')])
     = Inr (Some (InvalidCredsError (PyStr ''Auth failed'')))
   \<and> make_excp (PyDict [(''ERRORCODE'', PyInt 5), (''ERRORMESSAGE'', PyStr ''Object not found'')])
     = Inr (Some (LinodeError \<lparr>code = PyInt 5, message = PyStr ''Object not found'',
                                args = (PyInt 5, PyStr ''Object not found'')\<rparr>))"
  using make_excp_kinds
    [of "[(''ERRORCODE'', PyInt 4), (''ERRORMESSAGE'', PyStr ''Auth failed'')]"
        "PyInt 4" "PyStr ''Auth failed''"]
    make_excp_kinds
    [of "[(''ERRORCODE'', PyInt 5), (''ERRORMESSAGE'', PyStr ''Object not found'')]"
        "PyInt 5" "PyStr ''Object not found''"]
  by simp

text \<open>
  C6. A body that decodes to a single dictionary with \<^verbatim>\<open>DATA\<close>, \<^verbatim>\<open>ERRORARRAY\<close>
  and \<^verbatim>\<open>ACTION\<close> and an empty \<^verbatim>\<open>ERRORARRAY\<close> is handled as the one-element
  list holding it; the constructor finishes, the response is successful, and
  \<open>objects\<close> is the one-element list of the \<^verbatim>\<open>DATA\<close> value.
\<close>

theorem single_envelope_success:
  assumes "loads (read response) = Inr (PyDict kvs)"
    and "map_of kvs ''DATA'' = Some d"
    and "map_of kvs ''ERRORARRAY'' = Some (PyList [])"
    and "map_of kvs ''ACTION'' = Some a"
  shows "extract_step inval (PyDict kvs) = extract_loop inval [PyDict kvs] [] []
       \<and> parse_body loads (read response) inval = Inr (Some [d], [])
       \<and> LinodeResponse_init loads response =
           Inr \<lparr>body = read response, status = resp_status response,
                headers = map_of (rev (getheaders response)), error = reason response,
                invalid = invalid_json_error, objects = Some [d], errors = []\<rparr>
       \<and> (\<forall>self. LinodeResponse_init loads response = Inr self \<longrightarrow>
             success self \<and> objects self = Some [d])"
proof -
  have p: "parse_body loads (read response) i = Inr (Some [d], [])" for i
    using assms by (simp add: parse_body_def extract_step_def missing_key_dict)
  have i: "LinodeResponse_init loads response =
           Inr \<lparr>body = read response, status = resp_status response,
                headers = map_of (rev (getheaders response)), error = reason response,
                invalid = invalid_json_error, objects = Some [d], errors = []\<rparr>"
    using init_outcome[OF p] by simp
  have s: "\<forall>self. LinodeResponse_init loads response = Inr self \<longrightarrow>
             success self \<and> objects self = Some [d]"
    by (auto simp: i success_def)
  have e: "extract_step inval (PyDict kvs) = extract_loop inval [PyDict kvs] [] []"
    by (simp add: extract_step_def)
  from e p i s show ?thesis by blast
qed

text \<open>
  The body \<^verbatim>\<open>{"DATA": [1,2,3], "ERRORARRAY": [], "ACTION": "linode.list"}\<close>.
\<close>

theorem single_envelope_success_witness:
  "(let bdy = ''{\"DATA\": [1,2,3], \"ERRORARRAY\": [], \"ACTION\": \"linode.list\"}'';
        kvs = [(''DATA'', PyList [PyInt 1, PyInt 2, PyInt 3]), (''ERRORARRAY'', PyList []),
               (''ACTION'', PyStr ''linode.list'')];
        response = \<lparr>read = bdy, resp_status = 200, getheaders = [], reason = ''OK''\<rparr>
    in loads_of [(bdy, PyDict kvs)] (read response) = Inr (PyDict kvs)
       \<and> map_of kvs ''DATA'' = Some (PyList [PyInt 1, PyInt 2, PyInt 3])
       \<and> map_of kvs ''ERRORARRAY'' = Some (PyList [])
       \<and> map_of kvs ''ACTION'' = Some (PyStr ''linode.list'')
       \<and> LinodeResponse_init (loads_of [(bdy, PyDict kvs)]) response =
           Inr \<lparr>body = bdy, status = 200, headers = Map.empty, error = ''OK'',
                invalid = invalid_json_error,
                objects = Some [PyList [PyInt 1, PyInt 2, PyInt 3]], errors = []\<rparr>
       \<and> success \<lparr>body = bdy, status = 200, headers = Map.empty, error = ''OK'',
                invalid = invalid_json_error,
                objects = Some [PyList [PyInt 1, PyInt 2, PyInt 3]], errors = []\<rparr>)"
  using single_envelope_success
    [of "loads_of [(''{\"DATA\": [1,2,3], \"ERRORARRAY\": [], \"ACTION\": \"linode.list\"}'',
           PyDict [(''DATA'', PyList [PyInt 1, PyInt 2, PyInt 3]), (''ERRORARRAY'', PyList []),
                   (''ACTION'', PyStr ''linode.list'')])]"
        "\<lparr>read = ''{\"DATA\": [1,2,3], \"ERRORARRAY\": [], \"ACTION\": \"linode.list\"}'',
           resp_status = 200, getheaders = [], reason = ''OK''\<rparr>"
        "[(''DATA'', PyList [PyInt 1, PyInt 2, PyInt 3]), (''ERRORARRAY'', PyList []),
          (''ACTION'', PyStr ''linode.list'')]"
        "PyList [PyInt 1, PyInt 2, PyInt 3]" "PyStr ''linode.list''" invalid_json_error]
  by (simp add: loads_of_def success_def)

text \<open>
  C7. When the second block of \<open>parse_body\<close> raises, whatever it had collected is
  dropped: the result is \<^verbatim>\<open>(None, [self.invalid])\<close>, returned, not raised.
\<close>

theorem extract_failure_falls_back:
  assumes "loads bdy = Inr js" and "extract_step inval js = Inl e"
  shows "parse_body loads bdy inval = Inr (None, [Some (LinodeError inval)])"
  using assms by (simp add: parse_body_def)

text \<open>
  A list whose first item is a well-formed envelope and whose second item is the
  number 5: the membership test on the number raises after the first item was
  collected.
\<close>

theorem extract_failure_falls_back_witness:
  "(let bdy = ''[{\"DATA\":1,\"ERRORARRAY\":[],\"ACTION\":\"a\"},5]'';
        js = PyList [PyDict [(''DATA'', PyInt 1), (''ERRORARRAY'', PyList []),
                             (''ACTION'', PyStr ''a'')], PyInt 5]
    in loads_of [(bdy, js)] bdy = Inr js
       \<and> extract_step invalid_json_error js = Inl TypeError
       \<and> parse_body (loads_of [(bdy, js)]) bdy invalid_json_error
         = Inr (None, [Some (LinodeError invalid_json_error)]))"
  using extract_failure_falls_back
    [of "loads_of [(''[{\"DATA\":1,\"ERRORARRAY\":[],\"ACTION\":\"a\"},5]'',
           PyList [PyDict [(''DATA'', PyInt 1), (''ERRORARRAY'', PyList []),
                           (''ACTION'', PyStr ''a'')], PyInt 5])]"
        "''[{\"DATA\":1,\"ERRORARRAY\":[],\"ACTION\":\"a\"},5]''"
        "PyList [PyDict [(''DATA'', PyInt 1), (''ERRORARRAY'', PyList []),
                         (''ACTION'', PyStr ''a'')], PyInt 5]"
        invalid_json_error TypeError]
  by (simp add: loads_of_def extract_step_def missing_key_def)

text \<open>
  C10. A body that decodes to \<^verbatim>\<open>None\<close>, a boolean or a number is decoded without a
  \<^verbatim>\<open>MalformedResponseError\<close>; the loop cannot iterate over it, \<open>parse_body\<close>
  returns \<^verbatim>\<open>(None, [self.invalid])\<close>, and the constructor raises that sentinel, whose
  code is \<open>0xFF\<close>.
\<close>

theorem scalar_body_falls_back:
  assumes "loads (read response) = Inr v"
    and "v = PyNone \<or> (\<exists>b. v = PyBool b) \<or> (\<exists>i. v = PyInt i) \<or> (\<exists>f. v = PyFloat f)"
  shows "parse_body loads (read response) invalid_json_error
           = Inr (None, [Some (LinodeError invalid_json_error)])
       \<and> LinodeResponse_init loads response = Inl (LinodeError invalid_json_error)
       \<and> code invalid_json_error = PyInt 0xFF"
proof -
  have x: "extract_step invalid_json_error v = Inl TypeError"
    using assms(2) by (auto simp: extract_step_def)
  have p: "parse_body loads (read response) invalid_json_error
           = Inr (None, [Some (LinodeError invalid_json_error)])"
    using assms(1) x by (simp add: parse_body_def)
  have i: "LinodeResponse_init loads response = Inl (LinodeError invalid_json_error)"
    using init_outcome[OF p] by simp
  show ?thesis using p i by (simp add: LinodeException_init_def)
qed

text \<open>The body \<^verbatim>\<open>5\<close>.\<close>

theorem scalar_body_falls_back_witness:
  "loads_of [(''5'', PyInt 5)]
     (read \<lparr>read = ''5'', resp_status = 200, getheaders = [], reason = ''OK''\<rparr>) = Inr (PyInt 5)
   \<and> LinodeResponse_init (loads_of [(''5'', PyInt 5)])
        \<lparr>read = ''5'', resp_status = 200, getheaders = [], reason = ''OK''\<rparr>
     = Inl (LinodeError \<lparr>code = PyInt 255, message = PyStr ''Invalid JSON received from server'',
                         args = (PyInt 255, PyStr ''Invalid JSON received from server'')\<rparr>)"
  using scalar_body_falls_back
    [of "loads_of [(''5'', PyInt 5)]"
        "\<lparr>read = ''5'', resp_status = 200, getheaders = [], reason = ''OK''\<rparr>" "PyInt 5"]
  by (simp add: loads_of_def LinodeException_init_def)

section \<open>The exception's text forms\<close>

text \<open>
  C8, as amended. For a \<^verbatim>\<open>LinodeException\<close> built with an integer code \<open>c\<close> and a
  text message \<open>m\<close>, the string form is \<^verbatim>\<open>(<c>) <m>\<close> and the debug form is
  \<^verbatim>\<open><LinodeException code <c> '<m>'>\<close>, the code written in decimal; \<open>code\<close> and
  \<open>message\<close> are the values given at construction.
\<close>

theorem linode_exception_text_forms:
  "LinodeException_str str_m (LinodeException_init (PyInt c) (PyStr m))
     = Inr (''('' @ show_int c @ '') '' @ m)
   \<and> LinodeException_repr str_m (LinodeException_init (PyInt c) (PyStr m))
     = Inr (''<LinodeException code '' @ show_int c @ '' '' @ [CHR 0x27] @ m @ [CHR 0x27] @ ''>'')
   \<and> code (LinodeException_init c' m') = c'
   \<and> message (LinodeException_init c' m') = m'"
  by (simp add: LinodeException_str_def LinodeException_repr_def LinodeException_init_def)

text \<open>
  C8, as stated, fails: the debug form of \<^verbatim>\<open>LinodeException(5, "x")\<close> is
  \<^verbatim>\<open><LinodeException code 5 'x'>\<close>, which is not \<^verbatim>\<open><ApiError code=5 'x'>\<close>, under
  either name of the class.
\<close>

theorem repr_is_not_the_stated_form:
  "LinodeException_repr [] (LinodeException_init (PyInt 5) (PyStr ''x''))
     = Inr ''<LinodeException code 5 'x'>''
   \<and> LinodeException_repr [] (LinodeException_init (PyInt 5) (PyStr ''x''))
     \<noteq> Inr ''<ApiError code=5 'x'>''
   \<and> LinodeException_repr [] (LinodeException_init (PyInt 5) (PyStr ''x''))
     \<noteq> Inr ''<LinodeException code=5 'x'>''"
  by code_simp

lemma linode_exception_str_example:
  "LinodeException_str [] invalid_json_error = Inr ''(255) Invalid JSON received from server''"
  by code_simp

section \<open>The connection's default parameters\<close>

text \<open>
  C9. \<open>add_default_params\<close> returns the dictionary with \<^verbatim>\<open>api_key\<close> set to the
  connection's key and \<^verbatim>\<open>api_responseFormat\<close> set to \<^verbatim>\<open>json\<close>, whatever was
  stored under the two keys before; every other key keeps its value, and no other key
  appears.
\<close>

theorem add_default_params_frame:
  "add_default_params self params ''api_key'' = Some (key self)
   \<and> add_default_params self params ''api_responseFormat'' = Some (PyStr ''json'')
   \<and> (\<forall>k. k \<noteq> ''api_key'' \<and> k \<noteq> ''api_responseFormat''
          \<longrightarrow> add_default_params self params k = params k)
   \<and> dom (add_default_params self params) = dom params \<union> {''api_key'', ''api_responseFormat''}"
  by (auto simp: add_default_params_def)

text \<open>
  The parameters \<^verbatim>\<open>{"foo": "bar", "api_key": "old"}\<close> and the key \<^verbatim>\<open>K\<close>.
\<close>

theorem add_default_params_frame_witness:
  "''foo'' \<noteq> ''api_key'' \<and> ''foo'' \<noteq> ''api_responseFormat''
   \<and> add_default_params \<lparr>key = PyStr ''K''\<rparr>
        [''foo'' \<mapsto> PyStr ''bar'', ''api_key'' \<mapsto> PyStr ''old''] ''foo'' = Some (PyStr ''bar'')
   \<and> add_default_params \<lparr>key = PyStr ''K''\<rparr>
        [''foo'' \<mapsto> PyStr ''bar'', ''api_key'' \<mapsto> PyStr ''old''] ''api_key'' = Some (PyStr ''K'')
   \<and> add_default_params \<lparr>key = PyStr ''K''\<rparr>
        [''foo'' \<mapsto> PyStr ''bar'', ''api_key'' \<mapsto> PyStr ''old''] ''api_responseFormat''
      = Some (PyStr ''json'')"
  using add_default_params_frame
    [of "\<lparr>key = PyStr ''K''\<rparr>" "[''foo'' \<mapsto> PyStr ''bar'', ''api_key'' \<mapsto> PyStr ''old'']"]
  by simp

end
